theory Spec2Isabelle
  imports Main
begin

section \<open>Python values, exceptions and dictionaries\<close>

text \<open>
  The values a configuration field can hold: the scalars, and the lists and string-keyed
  dictionaries that JSON text decodes to.  An exception raised by the source is the
  \<open>Inl\<close> branch of a result \<open>exn + 'a\<close>.  The specification's
  \<open>InvalidBooleanLiteral\<close> is the \<open>ValueError\<close> raised by \<open>Field.value\<close>,
  \<open>InvalidScalarLiteral\<close> the \<open>ValueError\<close> of the type's own constructor,
  \<open>InvalidJSONLiteral\<close> is \<open>JSONDecodeError\<close>, and \<open>UnknownField\<close> is the
  \<open>AttributeError\<close> of \<open>Config.__getattr__\<close>.
\<close>

datatype pyval =
    PNone
  | PBool bool
  | PInt int
  | PStr string
  | PList "pyval list"
  | PDict "(string \<times> pyval) list"

datatype exn =
    ValueError string
  | JSONDecodeError
  | TypeError string
  | AttributeError string
  | RecursionError

text \<open>
  A \<open>dict\<close> keeps its keys in insertion order: \<open>d[k] = v\<close> replaces the value of a
  key that is present, where it stands, and appends a new key; \<open>d.update(other)\<close>
  stores the items of \<open>other\<close> one after the other.
\<close>

fun dict_setitem :: "('k \<times> 'v) list \<Rightarrow> 'k \<Rightarrow> 'v \<Rightarrow> ('k \<times> 'v) list" where
  "dict_setitem [] k v = [(k, v)]"
| "dict_setitem ((k', v') # d) k v =
     (if k' = k then (k, v) # d else (k', v') # dict_setitem d k v)"

definition dict_update :: "('k \<times> 'v) list \<Rightarrow> ('k \<times> 'v) list \<Rightarrow> ('k \<times> 'v) list" where
  "dict_update d other = fold (\<lambda>(k, v) acc. dict_setitem acc k v) other d"

section \<open>Strings: \<open>str.upper\<close>, \<open>str.lower\<close> and \<open>int(str)\<close>\<close>

text \<open>
  Strings are modelled over ASCII: \<open>upper\<close> and \<open>lower\<close> change the twenty-six
  letters and nothing else.
\<close>

definition upper_char :: "char \<Rightarrow> char" where
  "upper_char c =
     (case map_of (zip ''abcdefghijklmnopqrstuvwxyz'' ''ABCDEFGHIJKLMNOPQRSTUVWXYZ'') c of
        Some u \<Rightarrow> u
      | None \<Rightarrow> c)"

definition lower_char :: "char \<Rightarrow> char" where
  "lower_char c =
     (case map_of (zip ''ABCDEFGHIJKLMNOPQRSTUVWXYZ'' ''abcdefghijklmnopqrstuvwxyz'') c of
        Some l \<Rightarrow> l
      | None \<Rightarrow> c)"

definition upper :: "string \<Rightarrow> string" where
  "upper s = map upper_char s"

definition lower :: "string \<Rightarrow> string" where
  "lower s = map lower_char s"

text \<open>
  \<open>int(raw)\<close> on ASCII text in base ten: white space (the space and the five control
  characters from tab to carriage return) around the literal is dropped, one sign may
  lead, and the digits may be grouped by single underscores.  Anything else is a
  \<open>ValueError\<close>.  (The interpreter's limit on the number of digits is not modelled.)
\<close>

definition is_space :: "char \<Rightarrow> bool" where
  "is_space c = (c \<in> set [CHR '' '', CHR 0x09, CHR 0x0A, CHR 0x0B, CHR 0x0C, CHR 0x0D])"

definition strip :: "string \<Rightarrow> string" where
  "strip s = rev (dropWhile is_space (rev (dropWhile is_space s)))"

definition digit_of :: "char \<Rightarrow> nat option" where
  "digit_of c = map_of (zip ''0123456789'' [0, 1, 2, 3, 4, 5, 6, 7, 8, 9]) c"

fun digits_from :: "string \<Rightarrow> nat \<Rightarrow> nat option" where
  "digits_from [] acc = Some acc"
| "digits_from (c # cs) acc =
     (case digit_of c of
        Some n \<Rightarrow> digits_from cs (10 * acc + n)
      | None \<Rightarrow>
          if c = CHR ''_'' then
            (case cs of
               [] \<Rightarrow> None
             | d # ds \<Rightarrow> (if digit_of d = None then None else digits_from cs acc))
          else None)"

definition parse_digits :: "string \<Rightarrow> nat option" where
  "parse_digits s =
     (case s of
        [] \<Rightarrow> None
      | c # cs \<Rightarrow> (if digit_of c = None then None else digits_from s 0))"

definition py_int :: "string \<Rightarrow> exn + pyval" where
  "py_int raw =
     (let t = strip raw;
          r = (case t of
                 [] \<Rightarrow> None
               | c # cs \<Rightarrow>
                   if c = CHR ''-'' then map_option (\<lambda>n. - int n) (parse_digits cs)
                   else if c = CHR ''+'' then map_option int (parse_digits cs)
                   else map_option int (parse_digits t))
      in case r of
           None \<Rightarrow> Inl (ValueError ''invalid literal for int() with base 10'')
         | Some i \<Rightarrow> Inr (PInt i))"

section \<open>The process environment\<close>

text \<open>
  \<open>os.environ\<close> maps names to raw strings.  \<open>os.environ.get(key)\<close> is \<open>None\<close> for a
  name that is not set, and raises \<open>TypeError\<close> when the key is \<open>None\<close> instead of a
  string.
\<close>

type_synonym environ = "string \<rightharpoonup> string"

definition os_environ_get :: "environ \<Rightarrow> string option \<Rightarrow> exn + string option" where
  "os_environ_get env key =
     (case key of
        None \<Rightarrow> Inl (TypeError ''str expected, not NoneType'')
      | Some k \<Rightarrow> Inr (env k))"

section \<open>Field\<close>

text \<open>
  The type of a field is compared with \<open>bool\<close> and with the tag \<open>JSON\<close>; every other
  type is called on the raw string: \<open>str\<close> (the default), \<open>int\<close>, or any callable.
\<close>

datatype pytype =
    Bool_type
  | JSON
  | Str_type
  | Int_type
  | Callable "string \<Rightarrow> exn + pyval"

record Field =
  default_value :: pyval
  type :: pytype
  env_var :: "string option"

definition Field_init :: "pyval \<Rightarrow> pytype \<Rightarrow> string option \<Rightarrow> Field" where
  "Field_init dflt field_type env_var_arg =
     \<lparr>default_value = dflt, type = field_type, env_var = env_var_arg\<rparr>"

text \<open>\<open>Field(value)\<close>: the defaults of \<open>__init__\<close> are \<open>field_type=str\<close>, \<open>env_var=None\<close>.\<close>

definition Field_of :: "pyval \<Rightarrow> Field" where
  "Field_of dflt = Field_init dflt Str_type None"

text \<open>
  The property \<open>Field.value\<close>.  \<open>json.loads\<close> belongs to the standard library; it is the
  parameter \<open>loads\<close>.
\<close>

definition Field_value :: "(string \<Rightarrow> exn + pyval) \<Rightarrow> environ \<Rightarrow> Field \<Rightarrow> exn + pyval" where
  "Field_value loads env self =
     (case os_environ_get env (env_var self) of
        Inl e \<Rightarrow> Inl e
      | Inr None \<Rightarrow> Inr (default_value self)
      | Inr (Some raw_val) \<Rightarrow>
          (case type self of
             Bool_type \<Rightarrow>
               if lower raw_val = ''true'' then Inr (PBool True)
               else if lower raw_val = ''false'' then Inr (PBool False)
               else Inl (ValueError ''Bool type must be TRUE or FALSE'')
           | JSON \<Rightarrow> loads raw_val
           | Str_type \<Rightarrow> Inr (PStr raw_val)
           | Int_type \<Rightarrow> py_int raw_val
           | Callable f \<Rightarrow> f raw_val))"

text \<open>
  The setter of \<open>env_var\<close>: \<open>not self._env_var\<close> holds for \<open>None\<close> and for the empty
  string.
\<close>

definition falsy :: "string option \<Rightarrow> bool" where
  "falsy v = (case v of None \<Rightarrow> True | Some s \<Rightarrow> s = [])"

definition env_var_setter :: "Field \<Rightarrow> string \<Rightarrow> Field" where
  "env_var_setter self v =
     (if falsy (env_var self) then self\<lparr>env_var := Some (upper v)\<rparr> else self)"


section \<open>ConfigMeta\<close>

text \<open>
  Field objects live in a store, so that a class and its descendants can hold the same
  object and a change of its \<open>_env_var\<close> is seen through every reference.  A class is
  \<open>object\<close>, or a class made by the metaclass from one base; it has a \<open>_vars\<close>
  dictionary of its own or, as \<open>object\<close> and as a class that \<open>delattr\<close> took it from,
  none.

  A definition declares fields and nothing else, so the body of a class is given by its
  Field entries.  (The entries a class statement adds itself, \<open>__module__\<close> and
  \<open>__qualname__\<close>, and the functions in the body of \<open>Config\<close>, fail the
  \<open>isinstance\<close> test of the second loop, which passes them over.)
\<close>

type_synonym addr = nat

type_synonym store = "addr \<Rightarrow> Field"

type_synonym vars = "(string \<times> addr) list"

datatype pyclass =
    PyObject
  | PyClass pyclass "vars option"

fun mro :: "pyclass \<Rightarrow> pyclass list" where
  "mro PyObject = [PyObject]"
| "mro (PyClass b own) = PyClass b own # mro b"

text \<open>
  \<open>c._vars\<close> for a class \<open>c\<close>: the dictionary of the first class along the MRO of
  \<open>c\<close> that has one; \<open>object\<close> has none.
\<close>

fun class_vars :: "pyclass \<Rightarrow> exn + vars" where
  "class_vars PyObject = Inl (AttributeError ''type object has no attribute _vars'')"
| "class_vars (PyClass b None) = class_vars b"
| "class_vars (PyClass b (Some vs)) = Inr vs"

text \<open>
  \<open>cls._vars[name] = attr\<close>: the dictionary that \<open>cls._vars\<close> finds is changed where it
  is, in the class itself or in the ancestor that holds it.
\<close>

fun vars_setitem :: "pyclass \<Rightarrow> string \<Rightarrow> addr \<Rightarrow> exn + pyclass" where
  "vars_setitem PyObject name attr = Inl (AttributeError ''type object has no attribute _vars'')"
| "vars_setitem (PyClass b None) name attr =
     (case vars_setitem b name attr of
        Inl e \<Rightarrow> Inl e
      | Inr b' \<Rightarrow> Inr (PyClass b' None))"
| "vars_setitem (PyClass b (Some vs)) name attr = Inr (PyClass b (Some (dict_setitem vs name attr)))"

text \<open>
  \<open>delattr(cls, name)\<close> takes the entry of the body out of the class.  Under the name
  \<open>_vars\<close> the class holds, since \<open>cls._vars = {}\<close>, its own dictionary, and that is
  what goes; a class that has none of its own has nothing to delete.  (\<open>object\<close> lets no
  attribute be deleted.)
\<close>

fun class_delattr :: "pyclass \<Rightarrow> string \<Rightarrow> exn + pyclass" where
  "class_delattr PyObject name = Inl (TypeError ''cannot set attributes of type object'')"
| "class_delattr (PyClass b own) name =
     (if name = ''_vars''
      then (case own of
              None \<Rightarrow> Inl (AttributeError ''type object has no attribute _vars'')
            | Some vs \<Rightarrow> Inr (PyClass b None))
      else Inr (PyClass b own))"

text \<open>
  The first loop of \<open>ConfigMeta.__new__\<close>, over the reversed MRO; an exception of
  \<open>mro_class._vars\<close> is swallowed.
\<close>

fun preserve_fields :: "pyclass list \<Rightarrow> vars \<Rightarrow> vars" where
  "preserve_fields [] vs = vs"
| "preserve_fields (mro_class # rest) vs =
     (case class_vars mro_class of
        Inl e \<Rightarrow> preserve_fields rest vs
      | Inr other \<Rightarrow> preserve_fields rest (dict_update vs other))"

text \<open>
  The second loop, over the fields of the body: the field is bound under its name in
  \<open>cls._vars\<close>, its \<open>env_var\<close> is assigned the name, and the attribute of that name is
  deleted from the class.  An exception ends the class statement.
\<close>

fun bind_fields :: "vars \<Rightarrow> store \<times> pyclass \<Rightarrow> exn + store \<times> pyclass" where
  "bind_fields [] sc = Inr sc"
| "bind_fields ((name, attr) # rest) (s, cls) =
     (case vars_setitem cls name attr of
        Inl e \<Rightarrow> Inl e
      | Inr cls1 \<Rightarrow>
          (let s1 = s(attr := env_var_setter (s attr) name)
           in case class_delattr cls1 name of
                Inl e \<Rightarrow> Inl e
              | Inr cls2 \<Rightarrow> bind_fields rest (s1, cls2)))"

text \<open>
  \<open>ConfigMeta.__new__\<close> for a class with the one base \<open>base\<close>: the class gets an empty
  \<open>_vars\<close> of its own, which the first loop fills.  The reversed MRO ends with the new
  class itself: the last round of the first loop updates that dictionary with itself.
\<close>

definition ConfigMeta_new :: "store \<Rightarrow> pyclass \<Rightarrow> vars \<Rightarrow> exn + store \<times> pyclass" where
  "ConfigMeta_new s base body =
     (let inherited = preserve_fields (rev (mro base)) [];
          own = dict_update inherited inherited
      in bind_fields body (s, PyClass base (Some own)))"

text \<open>A chain of class statements, each class the base of the next.\<close>

fun declare_chain :: "store \<Rightarrow> pyclass \<Rightarrow> vars list \<Rightarrow> exn + store \<times> pyclass" where
  "declare_chain s base [] = Inr (s, base)"
| "declare_chain s base (body # rest) =
     (case ConfigMeta_new s base body of
        Inl e \<Rightarrow> Inl e
      | Inr (s', cls) \<Rightarrow> declare_chain s' cls rest)"

text \<open>
  The \<open>_vars\<close> a class has (none is the empty one), and the declaration of a name that is
  nearest to the most derived class, in a list of class bodies that starts with the most
  derived one.
\<close>

definition merged_fields :: "pyclass \<Rightarrow> vars" where
  "merged_fields c = (case class_vars c of Inl e \<Rightarrow> [] | Inr vs \<Rightarrow> vs)"






section \<open>Config\<close>

text \<open>
  An instance has its class and its own \<open>__dict__\<close>.  \<open>Config.__init__\<close> stores a new
  \<open>Field(value)\<close> in \<open>__dict__\<close> for every item of a non-empty \<open>config\<close>.  Its call of
  \<open>load_dotenv\<close> only adds to the process environment, which every operation below
  takes as an argument; the printing is not modelled.
\<close>

record Config =
  cls :: pyclass
  inst_dict :: "(string \<times> Field) list"

definition Config_init :: "pyclass \<Rightarrow> (string \<times> pyval) list option \<Rightarrow> Config" where
  "Config_init c config =
     \<lparr>cls = c,
      inst_dict =
        (case config of
           None \<Rightarrow> []
         | Some items \<Rightarrow> fold (\<lambda>(key, v) d. dict_setitem d key (Field_of v)) items [])\<rparr>"

text \<open>
  Attribute lookup on an instance, \<open>self.name\<close>.  A data descriptor of the class comes
  first: an instance of a class whose bodies hold fields only has three, \<open>__class__\<close>
  from \<open>object\<close> and \<open>__dict__\<close> and \<open>__weakref__\<close> from \<open>Config\<close>.  Then comes the entry
  of the instance's own \<open>__dict__\<close>; only then what the class has under the name, and
  after that \<open>__getattr__\<close>.
\<close>

definition data_descriptors :: "string list" where
  "data_descriptors = [''__class__'', ''__dict__'', ''__weakref__'']"

datatype lookup =
    Descriptor string
  | InstanceEntry Field
  | ClassLookup

definition instance_lookup :: "Config \<Rightarrow> string \<Rightarrow> lookup" where
  "instance_lookup self name =
     (if name \<in> set data_descriptors then Descriptor name
      else case map_of (inst_dict self) name of
             Some f \<Rightarrow> InstanceEntry f
           | None \<Rightarrow> ClassLookup)"

text \<open>
  \<open>self._vars\<close>: an entry of the instance's \<open>__dict__\<close>, a Field object, or the dictionary
  of the class.  (Every class made from \<open>Config\<close> finds a dictionary; were there none,
  \<open>__getattr__\<close> would be called for \<open>_vars\<close>, ask for \<open>self._vars\<close> again, and so on.)
\<close>

datatype attr_value =
    VarsDict vars
  | FieldObject Field

definition self_vars :: "Config \<Rightarrow> exn + attr_value" where
  "self_vars self =
     (case instance_lookup self ''_vars'' of
        InstanceEntry f \<Rightarrow> Inr (FieldObject f)
      | _ \<Rightarrow> (case class_vars (cls self) of Inr vs \<Rightarrow> Inr (VarsDict vs) | Inl e \<Rightarrow> Inl RecursionError))"

text \<open>\<open>Config.__getattr__\<close>, called when the ordinary lookup has found nothing.\<close>

definition Config_getattr ::
  "(string \<Rightarrow> exn + pyval) \<Rightarrow> environ \<Rightarrow> store \<Rightarrow> Config \<Rightarrow> string \<Rightarrow> exn + pyval" where
  "Config_getattr loads env s self name =
     (case self_vars self of
        Inl e \<Rightarrow> Inl e
      | Inr (VarsDict vs) \<Rightarrow>
          (case map_of vs name of
             Some a \<Rightarrow> Field_value loads env (s a)
           | None \<Rightarrow> Inl (AttributeError (''No config variable named '' @ name)))
      | Inr (FieldObject f) \<Rightarrow> Inl (TypeError ''argument of type Field is not iterable''))"

text \<open>The dictionary comprehension of \<open>as_dict\<close>: the first exception ends it.\<close>

fun comprehension ::
  "(string \<Rightarrow> exn + pyval) \<Rightarrow> environ \<Rightarrow> store \<Rightarrow> vars \<Rightarrow> (string \<times> pyval) list
     \<Rightarrow> exn + (string \<times> pyval) list" where
  "comprehension loads env s [] acc = Inr acc"
| "comprehension loads env s ((k, var) # rest) acc =
     (case Field_value loads env (s var) of
        Inl e \<Rightarrow> Inl e
      | Inr v \<Rightarrow> comprehension loads env s rest (dict_setitem acc k v))"

definition Config_as_dict ::
  "(string \<Rightarrow> exn + pyval) \<Rightarrow> environ \<Rightarrow> store \<Rightarrow> Config \<Rightarrow> exn + (string \<times> pyval) list" where
  "Config_as_dict loads env s self =
     (case self_vars self of
        Inl e \<Rightarrow> Inl e
      | Inr (VarsDict vs) \<Rightarrow> comprehension loads env s vs []
      | Inr (FieldObject f) \<Rightarrow> Inl (AttributeError ''Field object has no attribute items''))"

text \<open>
  The call \<open>self.as_dict()\<close>, inside \<open>get\<close> and \<open>has_key\<close> or by a caller: the attribute
  is looked up on the instance, and a Field object found in \<open>__dict__\<close> cannot be called.
\<close>

definition call_as_dict ::
  "(string \<Rightarrow> exn + pyval) \<Rightarrow> environ \<Rightarrow> store \<Rightarrow> Config \<Rightarrow> exn + (string \<times> pyval) list" where
  "call_as_dict loads env s self =
     (case instance_lookup self ''as_dict'' of
        InstanceEntry f \<Rightarrow> Inl (TypeError ''Field object is not callable'')
      | _ \<Rightarrow> Config_as_dict loads env s self)"

text \<open>\<open>Config.get\<close>: the dictionary's own \<open>get\<close> is given \<open>None\<close> as its default.\<close>

definition Config_get ::
  "(string \<Rightarrow> exn + pyval) \<Rightarrow> environ \<Rightarrow> store \<Rightarrow> Config \<Rightarrow> string \<Rightarrow> pyval \<Rightarrow> exn + pyval" where
  "Config_get loads env s self name dflt =
     (case call_as_dict loads env s self of
        Inl e \<Rightarrow> Inl e
      | Inr d \<Rightarrow> Inr (case map_of d name of Some v \<Rightarrow> v | None \<Rightarrow> PNone))"

definition Config_has_key ::
  "(string \<Rightarrow> exn + pyval) \<Rightarrow> environ \<Rightarrow> store \<Rightarrow> Config \<Rightarrow> string \<Rightarrow> exn + bool" where
  "Config_has_key loads env s self name =
     (case call_as_dict loads env s self of
        Inl e \<Rightarrow> Inl e
      | Inr d \<Rightarrow> Inr (name \<in> set (map fst d)))"

text \<open>The calls \<open>self.get(name, default)\<close> and \<open>self.has_key(name)\<close> of a caller.\<close>

definition call_get ::
  "(string \<Rightarrow> exn + pyval) \<Rightarrow> environ \<Rightarrow> store \<Rightarrow> Config \<Rightarrow> string \<Rightarrow> pyval \<Rightarrow> exn + pyval" where
  "call_get loads env s self name dflt =
     (case instance_lookup self ''get'' of
        InstanceEntry f \<Rightarrow> Inl (TypeError ''Field object is not callable'')
      | _ \<Rightarrow> Config_get loads env s self name dflt)"

definition call_has_key ::
  "(string \<Rightarrow> exn + pyval) \<Rightarrow> environ \<Rightarrow> store \<Rightarrow> Config \<Rightarrow> string \<Rightarrow> exn + bool" where
  "call_has_key loads env s self name =
     (case instance_lookup self ''has_key'' of
        InstanceEntry f \<Rightarrow> Inl (TypeError ''Field object is not callable'')
      | _ \<Rightarrow> Config_has_key loads env s self name)"

section \<open>The classes of the test modules\<close>

text \<open>
  The body of \<open>Config\<close> holds no field.  \<open>test_inherited_config.py\<close> makes six
  \<open>Field\<close> objects, here at the addresses 0 to 5, four in the body of
  \<open>ParentConfig(Config)\<close> and two in the body of \<open>SampleConfig(ParentConfig)\<close>.
\<close>

definition some_obj_default :: pyval where
  "some_obj_default =
     PDict [(''some_int'', PInt 5), (''some_str'', PStr ''str''), (''some_bool'', PBool True),
            (''some_list'', PList [PInt 1, PInt 2, PInt 3])]"

definition test_store :: store where
  "test_store =
     (\<lambda>a. Field_init PNone Str_type None)
       (0 := Field_init (PBool True) Bool_type None,
        1 := Field_init (PStr ''bar'') Str_type None,
        2 := Field_init (PInt 25) Int_type (Some ''QUUX''),
        3 := Field_init some_obj_default JSON None,
        4 := Field_init (PStr ''pica'') Str_type None,
        5 := Field_init (PStr ''poyo'') Str_type None)"

definition ParentConfig_body :: vars where
  "ParentConfig_body = [(''foo'', 0), (''bar'', 1), (''baz'', 2), (''some_obj'', 3)]"


text \<open>
  No test that is used below sets the variable of a JSON field, so \<open>json.loads\<close> is
  never called there; the examples pass a function that rejects every text.
\<close>

definition no_json :: "string \<Rightarrow> exn + pyval" where
  "no_json raw = Inl JSONDecodeError"

text \<open>The store and the class a class statement leaves (none of those below raises).\<close>

definition made :: "exn + store \<times> pyclass \<Rightarrow> store \<times> pyclass" where
  "made r = (case r of Inl e \<Rightarrow> (test_store, PyObject) | Inr sc \<Rightarrow> sc)"

definition Config_class :: pyclass where
  "Config_class = snd (made (ConfigMeta_new test_store PyObject []))"

definition ParentConfig :: "store \<times> pyclass" where
  "ParentConfig = made (declare_chain test_store PyObject [[], ParentConfig_body])"




section \<open>The setter of \<open>env_var\<close>\<close>

lemma falsy_upper [simp]: "falsy (Some (upper v)) = (v = [])"
  by (simp add: falsy_def upper_def)

lemma env_var_setter_set:
  "\<not> falsy (env_var f) \<Longrightarrow> env_var_setter f v = f"
  by (simp add: env_var_setter_def)

lemma env_var_setter_fold:
  "\<not> falsy (env_var f) \<Longrightarrow> fold (\<lambda>w g. env_var_setter g w) ws f = f"
  by (induction ws) (simp_all add: env_var_setter_set)

text \<open>
  C4.  Assigning a candidate name stores the upper-cased candidate exactly when the stored
  name is unset (\<open>None\<close>) or empty; a stored non-empty name, whether given at declaration
  or left by an earlier assignment, is unchanged by one and by any number of further
  assignments.
\<close>

theorem env_var_assigned_once:
  "(env_var f = None \<or> env_var f = Some [] \<longrightarrow>
      env_var_setter f v = f\<lparr>env_var := Some (upper v)\<rparr>)
   \<and> (env_var f = Some n \<and> n \<noteq> [] \<longrightarrow>
        env_var_setter f w = f \<and> fold (\<lambda>w g. env_var_setter g w) ws f = f)
   \<and> (falsy (env_var f) \<and> v \<noteq> [] \<longrightarrow>
        env_var (env_var_setter f v) = Some (upper v)
        \<and> env_var_setter (env_var_setter f v) w = env_var_setter f v
        \<and> fold (\<lambda>w g. env_var_setter g w) ws (env_var_setter f v) = env_var_setter f v)"
proof (intro conjI impI)
  assume "env_var f = None \<or> env_var f = Some []"
  then show "env_var_setter f v = f\<lparr>env_var := Some (upper v)\<rparr>"
    by (auto simp: env_var_setter_def falsy_def)
next
  assume h: "env_var f = Some n \<and> n \<noteq> []"
  then have nf: "\<not> falsy (env_var f)" by (simp add: falsy_def)
  from nf show "env_var_setter f w = f" by (rule env_var_setter_set)
  from nf show "fold (\<lambda>w g. env_var_setter g w) ws f = f" by (rule env_var_setter_fold)
next
  assume h: "falsy (env_var f) \<and> v \<noteq> []"
  then show e: "env_var (env_var_setter f v) = Some (upper v)"
    by (simp add: env_var_setter_def)
  from h have nf: "\<not> falsy (env_var (env_var_setter f v))"
    by (simp add: env_var_setter_def)
  from nf show "env_var_setter (env_var_setter f v) w = env_var_setter f v"
    by (rule env_var_setter_set)
  from nf show "fold (\<lambda>w g. env_var_setter g w) ws (env_var_setter f v) = env_var_setter f v"
    by (rule env_var_setter_fold)
qed

theorem env_var_assigned_once_witness:
  "env_var_setter (Field_init (PInt 25) Int_type (Some ''QUUX'')) ''baz''
     = Field_init (PInt 25) Int_type (Some ''QUUX'')
   \<and> env_var_setter (Field_init (PStr ''bar'') Str_type None) ''bar''
     = Field_init (PStr ''bar'') Str_type (Some ''BAR'')
   \<and> env_var_setter (env_var_setter (Field_init (PStr ''bar'') Str_type None) ''bar'') ''foo''
     = Field_init (PStr ''bar'') Str_type (Some ''BAR'')"
proof -
  let ?q = "Field_init (PInt 25) Int_type (Some ''QUUX'')"
  let ?b = "Field_init (PStr ''bar'') Str_type None"
  have up: "upper ''bar'' = ''BAR''"
    by (simp add: upper_def upper_char_def)
  have hq: "env_var ?q = Some ''QUUX'' \<and> ''QUUX'' \<noteq> []"
    by (simp add: Field_init_def)
  have hb: "env_var ?b = None \<or> env_var ?b = Some []"
    by (simp add: Field_init_def)
  have hb': "falsy (env_var ?b) \<and> ''bar'' \<noteq> []"
    by (simp add: Field_init_def falsy_def)
  note q = env_var_assigned_once [of ?q "''baz''" "''QUUX''" "''baz''" "[]"]
  note b = env_var_assigned_once [of ?b "''bar''" "''X''" "''foo''" "[]"]
  from q hq have a: "env_var_setter ?q ''baz'' = ?q"
    by blast
  from b hb have "env_var_setter ?b ''bar'' = ?b\<lparr>env_var := Some (upper ''bar'')\<rparr>"
    by blast
  then have b1: "env_var_setter ?b ''bar'' = Field_init (PStr ''bar'') Str_type (Some ''BAR'')"
    by (simp add: Field_init_def up)
  from b hb' have "env_var_setter (env_var_setter ?b ''bar'') ''foo'' = env_var_setter ?b ''bar''"
    by blast
  with b1 have c: "env_var_setter (env_var_setter ?b ''bar'') ''foo''
      = Field_init (PStr ''bar'') Str_type (Some ''BAR'')"
    by simp
  from a b1 c show ?thesis by blast
qed


section \<open>Dictionaries\<close>

lemma map_of_dict_setitem: "map_of (dict_setitem d k v) = (map_of d)(k \<mapsto> v)"
  by (induction d) (auto simp: fun_eq_iff)

lemma keys_dict_setitem: "fst ` set (dict_setitem d k v) = insert k (fst ` set d)"
  by (simp add: dom_map_of_conv_image_fst [symmetric] map_of_dict_setitem)





lemma map_of_fold_setitem:
  "map_of (fold (\<lambda>(k, v) acc. dict_setitem acc k (g v)) xs d)
     = map_of d ++ map_of (rev (map (\<lambda>(k, v). (k, g v)) xs))"
proof (induction xs arbitrary: d)
  case Nil
  then show ?case by simp
next
  case (Cons x xs)
  obtain k v where x: "x = (k, v)" by (cases x)
  show ?case
    by (simp add: x Cons.IH map_of_dict_setitem fun_eq_iff map_add_def
        split: option.splits)
qed






section \<open>The metaclass\<close>















lemmas up_simps = upper_def upper_char_def


lemma Config_class_eq: "Config_class = PyClass PyObject (Some [])"
  by (simp add: Config_class_def made_def ConfigMeta_new_def dict_update_def)



lemma ParentConfig_class:
  "snd ParentConfig =
     PyClass Config_class (Some [(''foo'', 0), (''bar'', 1), (''baz'', 2), (''some_obj'', 3)])"
  by (simp add: ParentConfig_def made_def Config_class_eq ConfigMeta_new_def
      ParentConfig_body_def dict_update_def)

lemma ParentConfig_store:
  "fst ParentConfig 0 = Field_init (PBool True) Bool_type (Some ''FOO'')"
  "fst ParentConfig 1 = Field_init (PStr ''bar'') Str_type (Some ''BAR'')"
  "fst ParentConfig 2 = Field_init (PInt 25) Int_type (Some ''QUUX'')"
  "fst ParentConfig 3 = Field_init some_obj_default JSON (Some ''SOME_OBJ'')"
  by (simp_all add: ParentConfig_def made_def ConfigMeta_new_def
      ParentConfig_body_def dict_update_def test_store_def env_var_setter_def falsy_def
      Field_init_def up_simps)







section \<open>Decoding the raw string\<close>

lemmas low_simps = lower_def lower_char_def

lemma Field_value_bound:
  "env_var f = Some n \<Longrightarrow>
   Field_value loads env f =
     (case env n of
        None \<Rightarrow> Inr (default_value f)
      | Some raw_val \<Rightarrow>
          (case type f of
             Bool_type \<Rightarrow>
               if lower raw_val = ''true'' then Inr (PBool True)
               else if lower raw_val = ''false'' then Inr (PBool False)
               else Inl (ValueError ''Bool type must be TRUE or FALSE'')
           | JSON \<Rightarrow> loads raw_val
           | Str_type \<Rightarrow> Inr (PStr raw_val)
           | Int_type \<Rightarrow> py_int raw_val
           | Callable g \<Rightarrow> g raw_val))"
  by (simp add: Field_value_def os_environ_get_def split: option.splits)

lemma casing_true:
  "list_all2 (\<lambda>c d. c = d \<or> c = upper_char d) raw ''true'' \<Longrightarrow> lower raw = ''true''"
  by (auto simp: list_all2_Cons2 low_simps upper_char_def)

lemma casing_false:
  "list_all2 (\<lambda>c d. c = d \<or> c = upper_char d) raw ''false'' \<Longrightarrow> lower raw = ''false''"
  by (auto simp: list_all2_Cons2 low_simps upper_char_def)

text \<open>
  C3.  For a field of type \<open>bool\<close> whose environment variable is set to \<open>raw\<close>:
  \<open>True\<close> and \<open>TRUE\<close> give \<open>True\<close>, \<open>false\<close> and \<open>FALSE\<close> give \<open>False\<close>, and so
  does every other casing of the two words; a raw string whose lower-cased form is
  neither word, such as \<open>yes\<close>, raises the \<open>ValueError\<close> of \<open>Field.value\<close>.
\<close>

theorem bool_field_decoding:
  assumes "type f = Bool_type" and "env_var f = Some n" and "env n = Some raw"
  shows "(raw = ''True'' \<or> raw = ''TRUE'' \<longrightarrow> Field_value loads env f = Inr (PBool True))
    \<and> (raw = ''false'' \<or> raw = ''FALSE'' \<longrightarrow> Field_value loads env f = Inr (PBool False))
    \<and> (list_all2 (\<lambda>c d. c = d \<or> c = upper_char d) raw ''true'' \<longrightarrow>
          Field_value loads env f = Inr (PBool True))
    \<and> (list_all2 (\<lambda>c d. c = d \<or> c = upper_char d) raw ''false'' \<longrightarrow>
          Field_value loads env f = Inr (PBool False))
    \<and> (lower raw \<noteq> ''true'' \<and> lower raw \<noteq> ''false'' \<longrightarrow>
          Field_value loads env f = Inl (ValueError ''Bool type must be TRUE or FALSE''))
    \<and> (raw = ''yes'' \<longrightarrow>
          Field_value loads env f = Inl (ValueError ''Bool type must be TRUE or FALSE''))"
proof -
  have v: "Field_value loads env f =
     (if lower raw = ''true'' then Inr (PBool True)
      else if lower raw = ''false'' then Inr (PBool False)
      else Inl (ValueError ''Bool type must be TRUE or FALSE''))"
    using assms by (simp add: Field_value_bound)
  have t: "lower ''True'' = ''true''" "lower ''TRUE'' = ''true''"
    and f: "lower ''false'' = ''false''" "lower ''FALSE'' = ''false''"
    and y: "lower ''yes'' = ''yes''"
    by (simp_all add: low_simps)
  have 1: "raw = ''True'' \<or> raw = ''TRUE'' \<longrightarrow> Field_value loads env f = Inr (PBool True)"
    using t by (auto simp: v)
  have 2: "raw = ''false'' \<or> raw = ''FALSE'' \<longrightarrow> Field_value loads env f = Inr (PBool False)"
    using f by (auto simp: v)
  have 3: "list_all2 (\<lambda>c d. c = d \<or> c = upper_char d) raw ''true'' \<longrightarrow>
          Field_value loads env f = Inr (PBool True)"
    using casing_true [of raw] by (auto simp: v)
  have 4: "list_all2 (\<lambda>c d. c = d \<or> c = upper_char d) raw ''false'' \<longrightarrow>
          Field_value loads env f = Inr (PBool False)"
    using casing_false [of raw] by (auto simp: v)
  have 5: "lower raw \<noteq> ''true'' \<and> lower raw \<noteq> ''false'' \<longrightarrow>
          Field_value loads env f = Inl (ValueError ''Bool type must be TRUE or FALSE'')"
    by (simp add: v)
  have 6: "raw = ''yes'' \<longrightarrow>
          Field_value loads env f = Inl (ValueError ''Bool type must be TRUE or FALSE'')"
    using y by (auto simp: v)
  show ?thesis
    by (intro conjI) (rule 1, rule 2, rule 3, rule 4, rule 5, rule 6)
qed

theorem bool_field_decoding_witness:
  "Field_value no_json [''FOO'' \<mapsto> ''True''] (fst ParentConfig 0) = Inr (PBool True)
   \<and> Field_value no_json [''FOO'' \<mapsto> ''FALSE''] (fst ParentConfig 0) = Inr (PBool False)
   \<and> Field_value no_json [''FOO'' \<mapsto> ''tRuE''] (fst ParentConfig 0) = Inr (PBool True)
   \<and> Field_value no_json [''FOO'' \<mapsto> ''yes''] (fst ParentConfig 0)
       = Inl (ValueError ''Bool type must be TRUE or FALSE'')"
proof -
  have h: "type (fst ParentConfig 0) = Bool_type" "env_var (fst ParentConfig 0) = Some ''FOO''"
    by (simp_all add: ParentConfig_store Field_init_def)
  have e: "[''FOO'' \<mapsto> r] ''FOO'' = Some r" for r :: string
    by simp
  have c: "list_all2 (\<lambda>c d. c = d \<or> c = upper_char d) ''tRuE'' ''true''"
    by (simp add: upper_char_def)
  note w1 = bool_field_decoding [where env = "[''FOO'' \<mapsto> ''True'']" and raw = "''True''" and loads = no_json,
      OF h e]
  note w2 = bool_field_decoding [where env = "[''FOO'' \<mapsto> ''FALSE'']" and raw = "''FALSE''" and loads = no_json,
      OF h e]
  note w3 = bool_field_decoding [where env = "[''FOO'' \<mapsto> ''tRuE'']" and raw = "''tRuE''" and loads = no_json,
      OF h e]
  note w4 = bool_field_decoding [where env = "[''FOO'' \<mapsto> ''yes'']" and raw = "''yes''" and loads = no_json,
      OF h e]
  have 1: "Field_value no_json [''FOO'' \<mapsto> ''True''] (fst ParentConfig 0) = Inr (PBool True)"
    by (rule w1 [THEN conjunct1, THEN mp]) simp
  have 2: "Field_value no_json [''FOO'' \<mapsto> ''FALSE''] (fst ParentConfig 0) = Inr (PBool False)"
    by (rule w2 [THEN conjunct2, THEN conjunct1, THEN mp]) simp
  have 3: "Field_value no_json [''FOO'' \<mapsto> ''tRuE''] (fst ParentConfig 0) = Inr (PBool True)"
    by (rule w3 [THEN conjunct2, THEN conjunct2, THEN conjunct1, THEN mp]) (rule c)
  have 4: "Field_value no_json [''FOO'' \<mapsto> ''yes''] (fst ParentConfig 0)
       = Inl (ValueError ''Bool type must be TRUE or FALSE'')"
    by (rule w4 [THEN conjunct2, THEN conjunct2, THEN conjunct2, THEN conjunct2,
          THEN conjunct2, THEN mp]) simp
  show ?thesis
    by (intro conjI) (rule 1, rule 2, rule 3, rule 4)
qed


section \<open>Resolving a field of an instance\<close>

lemma instance_lookup_vars:
  "instance_lookup self ''_vars'' =
     (case map_of (inst_dict self) ''_vars'' of Some f \<Rightarrow> InstanceEntry f | None \<Rightarrow> ClassLookup)"
  by (simp add: instance_lookup_def data_descriptors_def)

lemma self_vars_plain:
  "map_of (inst_dict self) ''_vars'' = None \<Longrightarrow> class_vars (cls self) = Inr vs
     \<Longrightarrow> self_vars self = Inr (VarsDict vs)"
  by (simp add: self_vars_def instance_lookup_vars)

lemma Config_init_None [simp]:
  "cls (Config_init c config) = c" "inst_dict (Config_init c None) = []"
  by (simp_all add: Config_init_def)

lemma Config_getattr_plain:
  "map_of (inst_dict self) ''_vars'' = None \<Longrightarrow> class_vars (cls self) = Inr vs \<Longrightarrow>
   Config_getattr loads env s self name =
     (case map_of vs name of
        Some a \<Rightarrow> Field_value loads env (s a)
      | None \<Rightarrow> Inl (AttributeError (''No config variable named '' @ name)))"
  by (simp add: Config_getattr_def self_vars_plain)

lemma merged_fields_vars: "class_vars c = Inr vs \<Longrightarrow> merged_fields c = vs"
  by (simp add: merged_fields_def)

text \<open>
  C5.  A field of the merged fields whose environment variable is not in the environment
  resolves to its declared default, the value itself and whatever its type: neither
  \<open>json.loads\<close> nor the type is applied to it.
\<close>

theorem absent_variable_yields_default:
  assumes "map_of (inst_dict self) ''_vars'' = None"
    and "map_of (merged_fields (cls self)) name = Some a"
    and "env_var (s a) = Some n"
    and "env n = None"
  shows "Field_value loads env (s a) = Inr (default_value (s a))
    \<and> Config_getattr loads env s self name = Inr (default_value (s a))"
proof -
  from assms(2) obtain vs where vs: "class_vars (cls self) = Inr vs" and m: "map_of vs name = Some a"
    by (auto simp: merged_fields_def split: sum.splits)
  from assms(3,4) have v: "Field_value loads env (s a) = Inr (default_value (s a))"
    by (simp add: Field_value_bound)
  moreover have "Config_getattr loads env s self name = Field_value loads env (s a)"
    by (simp add: Config_getattr_plain [OF assms(1) vs] m)
  ultimately show ?thesis by simp
qed

theorem absent_variable_yields_default_witness:
  "Config_getattr no_json Map.empty (fst ParentConfig) (Config_init (snd ParentConfig) None)
     ''some_obj''
   = Inr (PDict [(''some_int'', PInt 5), (''some_str'', PStr ''str''), (''some_bool'', PBool True),
                 (''some_list'', PList [PInt 1, PInt 2, PInt 3])])"
proof -
  let ?self = "Config_init (snd ParentConfig) None"
  have 1: "map_of (inst_dict ?self) ''_vars'' = None"
    by simp
  have 2: "map_of (merged_fields (cls ?self)) ''some_obj'' = Some 3"
    by (simp add: ParentConfig_class merged_fields_def)
  have 3: "env_var (fst ParentConfig 3) = Some ''SOME_OBJ''"
    by (simp add: ParentConfig_store Field_init_def)
  have 4: "(Map.empty :: environ) ''SOME_OBJ'' = None"
    by simp
  have 5: "default_value (fst ParentConfig 3) = some_obj_default"
    by (simp add: ParentConfig_store Field_init_def)
  note w = absent_variable_yields_default [where self = ?self and name = "''some_obj''"
      and a = 3 and s = "fst ParentConfig" and n = "''SOME_OBJ''" and env = "Map.empty"
      and loads = no_json, OF 1 2 3 4]
  from w [THEN conjunct2] show ?thesis
    unfolding 5 some_obj_default_def .
qed




section \<open>Errors of as_dict\<close>

lemma comprehension_fails:
  "(k, a) \<in> set vs \<Longrightarrow> Field_value loads env (s a) = Inl e
     \<Longrightarrow> \<exists>e'. comprehension loads env s vs acc = Inl e'"
proof (induction vs arbitrary: acc)
  case Nil
  then show ?case by simp
next
  case (Cons p vs)
  obtain k' b where p: "p = (k', b)" by (cases p)
  show ?case
  proof (cases "Field_value loads env (s b)")
    case (Inl e')
    then show ?thesis by (simp add: p)
  next
    case (Inr v)
    with Cons.prems have "(k, a) \<in> set vs" by (auto simp: p)
    then have "\<exists>e'. comprehension loads env s vs (dict_setitem acc k' v) = Inl e'"
      using Cons.prems(2) by (rule Cons.IH)
    with Inr show ?thesis by (simp add: p)
  qed
qed

lemma comprehension_error_source:
  "comprehension loads env s vs acc = Inl e'
     \<Longrightarrow> \<exists>(k, a) \<in> set vs. Field_value loads env (s a) = Inl e'"
proof (induction vs arbitrary: acc)
  case Nil
  then show ?case by simp
next
  case (Cons p vs)
  obtain k' b where p: "p = (k', b)" by (cases p)
  show ?case
  proof (cases "Field_value loads env (s b)")
    case (Inl e)
    with Cons.prems show ?thesis by (simp add: p)
  next
    case (Inr v)
    with Cons.prems have "comprehension loads env s vs (dict_setitem acc k' v) = Inl e'"
      by (simp add: p)
    then have "\<exists>(k, a) \<in> set vs. Field_value loads env (s a) = Inl e'"
      by (rule Cons.IH)
    then show ?thesis by auto
  qed
qed

lemma comprehension_keys:
  "comprehension loads env s vs acc = Inr d \<Longrightarrow> fst ` set d = fst ` set acc \<union> fst ` set vs"
proof (induction vs arbitrary: acc)
  case Nil
  then show ?case by simp
next
  case (Cons p vs)
  obtain k' b where p: "p = (k', b)" by (cases p)
  show ?case
  proof (cases "Field_value loads env (s b)")
    case (Inl e)
    with Cons.prems show ?thesis by (simp add: p)
  next
    case (Inr v)
    with Cons.prems have "comprehension loads env s vs (dict_setitem acc k' v) = Inr d"
      by (simp add: p)
    then have "fst ` set d = fst ` set (dict_setitem acc k' v) \<union> fst ` set vs"
      by (rule Cons.IH)
    then show ?thesis by (simp add: p keys_dict_setitem)
  qed
qed

lemma comprehension_returns:
  "\<forall>(k, a) \<in> set vs. \<exists>v. Field_value loads env (s a) = Inr v
     \<Longrightarrow> \<exists>d. comprehension loads env s vs acc = Inr d"
proof (induction vs arbitrary: acc)
  case Nil
  then show ?case by simp
next
  case (Cons p vs)
  obtain k' b where p: "p = (k', b)" by (cases p)
  from Cons.prems obtain v where v: "Field_value loads env (s b) = Inr v"
    by (auto simp: p)
  from Cons.prems have "\<forall>(k, a) \<in> set vs. \<exists>v. Field_value loads env (s a) = Inr v"
    by simp
  then have "\<exists>d. comprehension loads env s vs (dict_setitem acc k' v) = Inr d"
    by (rule Cons.IH)
  with v show ?case by (simp add: p)
qed

lemma comprehension_lookup:
  "distinct (map fst vs) \<Longrightarrow> comprehension loads env s vs acc = Inr d \<Longrightarrow>
   map_of d name =
     (case map_of vs name of
        Some a \<Rightarrow> (case Field_value loads env (s a) of Inl e \<Rightarrow> None | Inr v \<Rightarrow> Some v)
      | None \<Rightarrow> map_of acc name)"
proof (induction vs arbitrary: acc)
  case Nil
  then show ?case by simp
next
  case (Cons p vs)
  obtain k' b where p: "p = (k', b)" by (cases p)
  show ?case
  proof (cases "Field_value loads env (s b)")
    case (Inl e)
    with Cons.prems show ?thesis by (simp add: p)
  next
    case (Inr v)
    from Cons.prems(1) have dv: "distinct (map fst vs)" and nk: "map_of vs k' = None"
      by (simp_all add: p map_of_eq_None_iff)
    from Cons.prems(2) Inr
    have "comprehension loads env s vs (dict_setitem acc k' v) = Inr d"
      by (simp add: p)
    with dv have "map_of d name =
     (case map_of vs name of
        Some a \<Rightarrow> (case Field_value loads env (s a) of Inl e \<Rightarrow> None | Inr v \<Rightarrow> Some v)
      | None \<Rightarrow> map_of (dict_setitem acc k' v) name)"
      by (rule Cons.IH)
    then show ?thesis
      using nk Inr by (auto simp: p map_of_dict_setitem split: option.splits)
  qed
qed

lemma instance_lookup_plain:
  "name \<notin> set data_descriptors \<Longrightarrow>
   instance_lookup self name =
     (case map_of (inst_dict self) name of Some f \<Rightarrow> InstanceEntry f | None \<Rightarrow> ClassLookup)"
  by (simp add: instance_lookup_def)

lemma not_descriptors:
  "''as_dict'' \<notin> set data_descriptors" "''get'' \<notin> set data_descriptors"
  "''has_key'' \<notin> set data_descriptors" "''_vars'' \<notin> set data_descriptors"
  by (simp_all add: data_descriptors_def)

lemma Config_as_dict_plain:
  "map_of (inst_dict self) ''_vars'' = None \<Longrightarrow> class_vars (cls self) = Inr vs \<Longrightarrow>
   Config_as_dict loads env s self = comprehension loads env s vs []"
  by (simp add: Config_as_dict_def self_vars_plain)

lemma call_as_dict_plain:
  "map_of (inst_dict self) ''_vars'' = None \<Longrightarrow> map_of (inst_dict self) ''as_dict'' = None
     \<Longrightarrow> class_vars (cls self) = Inr vs \<Longrightarrow>
   call_as_dict loads env s self = comprehension loads env s vs []"
  by (simp add: call_as_dict_def instance_lookup_plain not_descriptors Config_as_dict_plain)

text \<open>
  C7, as the code has it.  On an instance whose \<open>__dict__\<close> has no entry \<open>_vars\<close> or
  \<open>as_dict\<close>: when the environment value of one merged field is malformed,
  \<open>__getattr__\<close> for that field raises the decoding error and the call of \<open>as_dict\<close>
  raises too, with the error some field's own resolution raised (the error of that field
  when no other field fails): nothing is caught on the way.  Every other field still
  resolves to what \<open>Field.value\<close> gives for it, which depends on the environment through
  the field's own variable only.
\<close>

theorem malformed_value_fails_its_field_only:
  assumes "map_of (inst_dict self) ''_vars'' = None"
    and "map_of (inst_dict self) ''as_dict'' = None"
    and "map_of (merged_fields (cls self)) bad = Some a"
    and "Field_value loads env (s a) = Inl e"
  shows "Config_getattr loads env s self bad = Inl e
    \<and> (\<exists>e'. call_as_dict loads env s self = Inl e'
           \<and> (\<exists>(k, b) \<in> set (merged_fields (cls self)). Field_value loads env (s b) = Inl e'))
    \<and> ((\<forall>(k, b) \<in> set (merged_fields (cls self)).
            \<forall>e'. Field_value loads env (s b) = Inl e' \<longrightarrow> e' = e)
          \<longrightarrow> call_as_dict loads env s self = Inl e)
    \<and> (\<forall>other b. map_of (merged_fields (cls self)) other = Some b \<longrightarrow>
          Config_getattr loads env s self other = Field_value loads env (s b))
    \<and> (\<forall>other b n env'.
          map_of (merged_fields (cls self)) other = Some b \<and> env_var (s b) = Some n
            \<and> env' n = env n \<longrightarrow>
          Config_getattr loads env' s self other = Config_getattr loads env s self other)"
proof -
  let ?vs = "merged_fields (cls self)"
  from assms(3) have cv: "class_vars (cls self) = Inr ?vs"
    by (auto simp: merged_fields_def split: sum.splits)
  note ga = Config_getattr_plain [OF assms(1) cv]
  from assms(3) have m: "(bad, a) \<in> set ?vs" by (rule map_of_SomeD)
  have 1: "Config_getattr loads env s self bad = Inl e"
    using assms(3,4) by (simp add: ga)
  from comprehension_fails [where s = s and acc = "[]", OF m assms(4)]
  obtain e' where e': "comprehension loads env s ?vs [] = Inl e'" by blast
  from comprehension_error_source [OF e']
  have src: "\<exists>(k, b) \<in> set ?vs. Field_value loads env (s b) = Inl e'" .
  have d: "call_as_dict loads env s self = Inl e'"
    using e' by (simp add: call_as_dict_plain [OF assms(1,2) cv])
  from d src have 2: "\<exists>e'. call_as_dict loads env s self = Inl e'
           \<and> (\<exists>(k, b) \<in> set ?vs. Field_value loads env (s b) = Inl e')"
    by blast
  have 3: "(\<forall>(k, b) \<in> set ?vs. \<forall>e'. Field_value loads env (s b) = Inl e' \<longrightarrow> e' = e)
          \<longrightarrow> call_as_dict loads env s self = Inl e"
    using d src by auto
  have 4: "\<forall>other b. map_of ?vs other = Some b \<longrightarrow>
          Config_getattr loads env s self other = Field_value loads env (s b)"
    by (simp add: ga)
  have 5: "\<forall>other b n env'.
          map_of ?vs other = Some b \<and> env_var (s b) = Some n \<and> env' n = env n \<longrightarrow>
          Config_getattr loads env' s self other = Config_getattr loads env s self other"
    by (simp add: ga Field_value_bound)
  show ?thesis
    by (intro conjI) (rule 1, rule 2, rule 3, rule 4, rule 5)
qed

lemma ParentConfig_store_1:
  "fst ParentConfig (Suc 0) = Field_init (PStr ''bar'') Str_type (Some ''BAR'')"
  using ParentConfig_store(2) by simp

lemmas eval_simps = ParentConfig_store ParentConfig_store_1 ParentConfig_class merged_fields_def
  Field_init_def Field_value_def os_environ_get_def low_simps py_int_def strip_def is_space_def
  parse_digits_def digit_of_def some_obj_default_def

lemmas inst_simps = call_as_dict_def Config_as_dict_def self_vars_def instance_lookup_def
  data_descriptors_def Config_init_def Field_of_def

theorem malformed_value_fails_its_field_only_witness:
  "Config_getattr no_json [''FOO'' \<mapsto> ''yes'', ''QUUX'' \<mapsto> ''30'']
     (fst ParentConfig) (Config_init (snd ParentConfig) None) ''foo''
     = Inl (ValueError ''Bool type must be TRUE or FALSE'')
   \<and> call_as_dict no_json [''FOO'' \<mapsto> ''yes'', ''QUUX'' \<mapsto> ''30'']
     (fst ParentConfig) (Config_init (snd ParentConfig) None)
     = Inl (ValueError ''Bool type must be TRUE or FALSE'')
   \<and> Config_getattr no_json [''FOO'' \<mapsto> ''yes'', ''QUUX'' \<mapsto> ''30'']
     (fst ParentConfig) (Config_init (snd ParentConfig) None) ''baz''
     = Inr (PInt 30)"
proof -
  let ?L = no_json
  let ?env = "[''FOO'' \<mapsto> ''yes'', ''QUUX'' \<mapsto> ''30'']"
  let ?self = "Config_init (snd ParentConfig) None"
  let ?e = "ValueError ''Bool type must be TRUE or FALSE''"
  have h1: "map_of (inst_dict ?self) ''_vars'' = None"
    and h2: "map_of (inst_dict ?self) ''as_dict'' = None"
    by simp_all
  have 2: "map_of (merged_fields (cls ?self)) ''foo'' = Some 0"
    by (simp add: ParentConfig_class merged_fields_def)
  have 3: "Field_value ?L ?env (fst ParentConfig 0) = Inl ?e"
    by (simp add: eval_simps)
  have only: "\<forall>(k, b) \<in> set (merged_fields (cls ?self)).
            \<forall>e'. Field_value ?L ?env (fst ParentConfig b) = Inl e' \<longrightarrow> e' = ?e"
    by (simp add: eval_simps)
  have baz: "map_of (merged_fields (cls ?self)) ''baz'' = Some 2"
    by (simp add: ParentConfig_class merged_fields_def)
  have v: "Field_value ?L ?env (fst ParentConfig 2) = Inr (PInt 30)"
    by (simp add: eval_simps)
  note w = malformed_value_fails_its_field_only [where self = ?self and bad = "''foo''"
      and a = 0 and s = "fst ParentConfig" and env = ?env and loads = ?L and e = ?e,
      OF h1 h2 2 3]
  have a: "Config_getattr ?L ?env (fst ParentConfig) ?self ''foo'' = Inl ?e"
    by (rule w [THEN conjunct1])
  have b: "call_as_dict ?L ?env (fst ParentConfig) ?self = Inl ?e"
    by (rule w [THEN conjunct2, THEN conjunct2, THEN conjunct1, THEN mp]) (rule only)
  have "Config_getattr ?L ?env (fst ParentConfig) ?self ''baz''
      = Field_value ?L ?env (fst ParentConfig 2)"
    by (rule w [THEN conjunct2, THEN conjunct2, THEN conjunct2, THEN conjunct1, rule_format,
          OF baz])
  then have c: "Config_getattr ?L ?env (fst ParentConfig) ?self ''baz'' = Inr (PInt 30)"
    by (simp only: v)
  show ?thesis
    by (intro conjI) (rule a, rule b, rule c)
qed

text \<open>
  C7 as stated fails on an instance made with an entry named \<open>_vars\<close>: with \<open>FOO=yes\<close>
  the field \<open>foo\<close> does not resolve, but what \<open>__getattr__\<close> and \<open>as_dict\<close> raise is not
  that decoding error: \<open>self._vars\<close> is the Field object of the entry.
\<close>

theorem shadowed_vars_hides_decoding_error_counterexample:
  "map_of (merged_fields (snd ParentConfig)) ''foo'' = Some 0
   \<and> Field_value no_json (map_of [(''FOO'', ''yes'')]) (fst ParentConfig 0)
       = Inl (ValueError ''Bool type must be TRUE or FALSE'')
   \<and> Config_getattr no_json (map_of [(''FOO'', ''yes'')]) (fst ParentConfig)
       (Config_init (snd ParentConfig) (Some [(''_vars'', PInt 1)])) ''foo''
       = Inl (TypeError ''argument of type Field is not iterable'')
   \<and> call_as_dict no_json (map_of [(''FOO'', ''yes'')]) (fst ParentConfig)
       (Config_init (snd ParentConfig) (Some [(''_vars'', PInt 1)]))
       = Inl (AttributeError ''Field object has no attribute items'')"
  by (simp add: Config_getattr_def inst_simps eval_simps)


section \<open>get and has_key\<close>

lemma call_get_plain:
  "map_of (inst_dict self) ''get'' = None \<Longrightarrow>
   call_get loads env s self name dflt = Config_get loads env s self name dflt"
  by (simp add: call_get_def instance_lookup_plain not_descriptors)

lemma call_has_key_plain:
  "map_of (inst_dict self) ''has_key'' = None \<Longrightarrow>
   call_has_key loads env s self name = Config_has_key loads env s self name"
  by (simp add: call_has_key_def instance_lookup_plain not_descriptors)

lemma comprehension_all_decoded:
  assumes "comprehension loads env s vs acc = Inr d" and "(k, a) \<in> set vs"
  shows "\<exists>v. Field_value loads env (s a) = Inr v"
proof (cases "Field_value loads env (s a)")
  case (Inl e)
  from comprehension_fails [where s = s and acc = acc, OF assms(2) Inl] assms(1)
  show ?thesis by auto
next
  case (Inr v)
  then show ?thesis by blast
qed

text \<open>
  Every class made from a class that finds a \<open>_vars\<close>, as \<open>Config\<close> does, finds one too.
\<close>

lemma vars_setitem_finds:
  "class_vars c = Inr vs \<Longrightarrow> \<exists>c' vs'. vars_setitem c name a = Inr c' \<and> class_vars c' = Inr vs'"
  by (induction c arbitrary: vs rule: class_vars.induct) (auto split: sum.splits)

lemma bind_fields_finds:
  "class_vars b = Inr vs0 \<Longrightarrow> bind_fields body (s, PyClass b own) = Inr (s', c)
     \<Longrightarrow> \<exists>vs'. class_vars c = Inr vs'"
proof (induction body arbitrary: s b own vs0)
  case Nil
  then show ?case by (cases own) auto
next
  case (Cons p body)
  obtain name a where p: "p = (name, a)" by (cases p)
  let ?s = "s(a := env_var_setter (s a) name)"
  show ?case
  proof (cases own)
    case None
    from vars_setitem_finds [OF Cons.prems(1), of name a]
    obtain b' vs' where b': "vars_setitem b name a = Inr b'" and v': "class_vars b' = Inr vs'"
      by blast
    from Cons.prems(2) have "bind_fields body (?s, PyClass b' None) = Inr (s', c)"
      by (simp add: p None b' split: if_splits)
    with v' show ?thesis by (rule Cons.IH)
  next
    case (Some own_vs)
    from Cons.prems(2)
    have "bind_fields body (?s, PyClass b None) = Inr (s', c)
        \<or> bind_fields body (?s, PyClass b (Some (dict_setitem own_vs name a))) = Inr (s', c)"
      by (simp add: p Some split: if_splits)
    then show ?thesis
      using Cons.IH [OF Cons.prems(1)] by blast
  qed
qed

lemma ConfigMeta_new_finds:
  assumes "class_vars base = Inr vs" and "ConfigMeta_new s base body = Inr (s', c)"
  shows "\<exists>vs'. class_vars c = Inr vs'"
  using assms(2) bind_fields_finds [OF assms(1)]
  by (simp add: ConfigMeta_new_def Let_def)

lemma declare_chain_finds:
  "class_vars base = Inr vs \<Longrightarrow> declare_chain s base defs = Inr (s', c)
     \<Longrightarrow> \<exists>vs'. class_vars c = Inr vs'"
proof (induction defs arbitrary: s base vs)
  case Nil
  then show ?case by simp
next
  case (Cons body defs)
  from Cons.prems(2) obtain s1 c1 where n: "ConfigMeta_new s base body = Inr (s1, c1)"
    and r: "declare_chain s1 c1 defs = Inr (s', c)"
    by (auto split: sum.splits)
  from ConfigMeta_new_finds [OF Cons.prems(1) n] obtain vs1 where "class_vars c1 = Inr vs1"
    by blast
  then show ?case using r by (rule Cons.IH)
qed

lemma classes_from_Config_find_vars:
  "declare_chain s Config_class defs = Inr (s', c) \<Longrightarrow> \<exists>vs. class_vars c = Inr vs"
  by (rule declare_chain_finds [of Config_class "[]"]) (simp_all add: Config_class_eq)

text \<open>
  The parameter \<open>default\<close> of \<open>Config.get\<close> does not occur in its body: the result is the
  same for every default.
\<close>

lemma Config_get_default_unused:
  "Config_get loads env s self name dflt = Config_get loads env s self name dflt'"
  by (simp add: Config_get_def)

text \<open>
  C1, as the code has it.  On an instance whose \<open>__dict__\<close> has no entry \<open>_vars\<close>,
  \<open>as_dict\<close> or \<open>get\<close>, and whose class finds its \<open>_vars\<close>: the call of \<open>get\<close> builds the
  whole dictionary first.  When every merged field resolves, it returns a value for every
  name, and for a merged name the value that field resolves to; when some merged field's
  environment value is malformed, it raises a field's decoding error, for every name.
\<close>

theorem get_raises_when_a_field_fails:
  assumes "map_of (inst_dict self) ''_vars'' = None"
    and "map_of (inst_dict self) ''as_dict'' = None"
    and "map_of (inst_dict self) ''get'' = None"
    and "class_vars (cls self) = Inr vs"
  shows "((\<forall>(k, a) \<in> set vs. \<exists>v. Field_value loads env (s a) = Inr v)
            \<longrightarrow> (\<exists>v. call_get loads env s self name dflt = Inr v))
    \<and> (\<forall>k a e. (k, a) \<in> set vs \<and> Field_value loads env (s a) = Inl e
          \<longrightarrow> (\<exists>e'. call_get loads env s self name dflt = Inl e'
                 \<and> (\<exists>(k', b) \<in> set vs. Field_value loads env (s b) = Inl e')))
    \<and> (distinct (map fst vs) \<longrightarrow>
         (\<forall>a v. map_of vs name = Some a \<and> call_get loads env s self name dflt = Inr v
            \<longrightarrow> Field_value loads env (s a) = Inr v))"
proof -
  note sd = call_as_dict_plain [OF assms(1,2,4), of loads env s]
  note cg = call_get_plain [OF assms(3), of loads env s name dflt]
  have 1: "(\<forall>(k, a) \<in> set vs. \<exists>v. Field_value loads env (s a) = Inr v)
            \<longrightarrow> (\<exists>v. call_get loads env s self name dflt = Inr v)"
  proof
    assume "\<forall>(k, a) \<in> set vs. \<exists>v. Field_value loads env (s a) = Inr v"
    then obtain d where "comprehension loads env s vs [] = Inr d"
      using comprehension_returns [of vs loads env s "[]"] by blast
    then show "\<exists>v. call_get loads env s self name dflt = Inr v"
      by (simp add: cg Config_get_def sd)
  qed
  have 2: "\<forall>k a e. (k, a) \<in> set vs \<and> Field_value loads env (s a) = Inl e
          \<longrightarrow> (\<exists>e'. call_get loads env s self name dflt = Inl e'
                 \<and> (\<exists>(k', b) \<in> set vs. Field_value loads env (s b) = Inl e'))"
  proof (intro allI impI)
    fix k a e
    assume h: "(k, a) \<in> set vs \<and> Field_value loads env (s a) = Inl e"
    then obtain e' where e': "comprehension loads env s vs [] = Inl e'"
      using comprehension_fails [where s = s and acc = "[]" and vs = vs and k = k and a = a
          and loads = loads and env = env and e = e] by blast
    from comprehension_error_source [OF e']
    have "\<exists>(k', b) \<in> set vs. Field_value loads env (s b) = Inl e'" .
    moreover have "call_get loads env s self name dflt = Inl e'"
      by (simp add: cg Config_get_def sd e')
    ultimately show "\<exists>e'. call_get loads env s self name dflt = Inl e'
                 \<and> (\<exists>(k', b) \<in> set vs. Field_value loads env (s b) = Inl e')"
      by blast
  qed
  have 3: "distinct (map fst vs) \<longrightarrow>
         (\<forall>a v. map_of vs name = Some a \<and> call_get loads env s self name dflt = Inr v
            \<longrightarrow> Field_value loads env (s a) = Inr v)"
  proof (intro allI impI)
    fix a v
    assume dist: "distinct (map fst vs)"
      and h: "map_of vs name = Some a \<and> call_get loads env s self name dflt = Inr v"
    from h obtain d where d: "comprehension loads env s vs [] = Inr d"
      and v: "v = (case map_of d name of Some x \<Rightarrow> x | None \<Rightarrow> PNone)"
      by (auto simp: cg Config_get_def sd split: sum.splits)
    from h have "(name, a) \<in> set vs" by (simp add: map_of_SomeD)
    with d obtain x where x: "Field_value loads env (s a) = Inr x"
      using comprehension_all_decoded by blast
    from comprehension_lookup [OF dist d, of name] h x
    have "map_of d name = Some x" by simp
    with v x show "Field_value loads env (s a) = Inr v" by simp
  qed
  show ?thesis
    by (intro conjI) (rule 1, rule 2, rule 3)
qed

lemmas class_simps = ParentConfig_class Config_class_eq

theorem get_raises_when_a_field_fails_witness:
  "call_get no_json Map.empty (fst ParentConfig) (Config_init (snd ParentConfig) None)
     ''baz'' (PInt 7) = Inr (PInt 25)
   \<and> call_get no_json [''FOO'' \<mapsto> ''yes''] (fst ParentConfig)
       (Config_init (snd ParentConfig) None) ''baz'' (PInt 7)
     = Inl (ValueError ''Bool type must be TRUE or FALSE'')"
proof -
  let ?self = "Config_init (snd ParentConfig) None"
  let ?vs = "[(''foo'', 0), (''bar'', 1), (''baz'', 2), (''some_obj'', 3)] :: vars"
  let ?bad = "[''FOO'' \<mapsto> ''yes'']"
  let ?e = "ValueError ''Bool type must be TRUE or FALSE''"
  have h1: "map_of (inst_dict ?self) ''_vars'' = None"
    and h2: "map_of (inst_dict ?self) ''as_dict'' = None"
    and h3: "map_of (inst_dict ?self) ''get'' = None"
    by simp_all
  have h4: "class_vars (cls ?self) = Inr ?vs"
    by (simp add: class_simps)
  note good = get_raises_when_a_field_fails [where self = ?self and loads = no_json
      and env = Map.empty and s = "fst ParentConfig" and name = "''baz''" and dflt = "PInt 7",
      OF h1 h2 h3 h4]
  note bad = get_raises_when_a_field_fails [where self = ?self and loads = no_json
      and env = ?bad and s = "fst ParentConfig" and name = "''baz''" and dflt = "PInt 7",
      OF h1 h2 h3 h4]
  have all: "\<forall>(k, a) \<in> set ?vs. \<exists>v. Field_value no_json Map.empty (fst ParentConfig a) = Inr v"
    by (simp add: eval_simps)
  have dist: "distinct (map fst ?vs)"
    by simp
  have baz: "map_of ?vs ''baz'' = Some 2"
    by simp
  have v2: "Field_value no_json Map.empty (fst ParentConfig 2) = Inr (PInt 25)"
    by (simp add: eval_simps)
  from good [THEN conjunct1, THEN mp, OF all]
  obtain v where v: "call_get no_json Map.empty (fst ParentConfig) ?self ''baz'' (PInt 7) = Inr v"
    by (rule exE)
  from good [THEN conjunct2, THEN conjunct2, THEN mp, OF dist, rule_format, OF conjI, OF baz v]
  have "Field_value no_json Map.empty (fst ParentConfig 2) = Inr v" .
  with v2 have "v = PInt 25" by simp
  with v have a: "call_get no_json Map.empty (fst ParentConfig) ?self ''baz'' (PInt 7)
      = Inr (PInt 25)"
    by simp
  have foo: "(''foo'', 0) \<in> set ?vs \<and> Field_value no_json ?bad (fst ParentConfig 0) = Inl ?e"
    by (simp add: eval_simps)
  have only: "\<forall>(k, b) \<in> set ?vs.
            \<forall>e'. Field_value no_json ?bad (fst ParentConfig b) = Inl e' \<longrightarrow> e' = ?e"
    by (simp add: eval_simps)
  from bad [THEN conjunct2, THEN conjunct1, rule_format, OF foo]
  obtain e' where e': "call_get no_json ?bad (fst ParentConfig) ?self ''baz'' (PInt 7) = Inl e'"
    and src: "\<exists>(k', b) \<in> set ?vs. Field_value no_json ?bad (fst ParentConfig b) = Inl e'"
    by (elim exE conjE)
  from src only have "e' = ?e" by auto
  with e' have b: "call_get no_json ?bad (fst ParentConfig) ?self ''baz'' (PInt 7) = Inl ?e"
    by simp
  show ?thesis
    by (intro conjI) (rule a, rule b)
qed

text \<open>
  C1 as stated fails: with \<open>FOO=yes\<close> for the boolean field \<open>foo\<close>, \<open>get\<close> of a name that
  is not a merged field raises instead of returning the caller's default.
\<close>

theorem get_unknown_name_counterexample:
  "map_of (merged_fields (snd ParentConfig)) ''missing'' = None
   \<and> call_get no_json (map_of [(''FOO'', ''yes'')]) (fst ParentConfig)
       (Config_init (snd ParentConfig) None) ''missing'' (PInt 7)
     = Inl (ValueError ''Bool type must be TRUE or FALSE'')"
  by (simp add: call_get_def Config_get_def inst_simps eval_simps)

text \<open>
  C8, as the code has it.  On an instance whose \<open>__dict__\<close> has no entry \<open>_vars\<close>,
  \<open>as_dict\<close> or \<open>has_key\<close>, and whose class finds its \<open>_vars\<close>: the call of \<open>has_key\<close>
  builds the whole dictionary first.  When every merged field resolves, it returns whether
  the name is a merged field; when some merged field's environment value is malformed,
  it raises a field's decoding error.
\<close>

theorem has_key_raises_when_a_field_fails:
  assumes "map_of (inst_dict self) ''_vars'' = None"
    and "map_of (inst_dict self) ''as_dict'' = None"
    and "map_of (inst_dict self) ''has_key'' = None"
    and "class_vars (cls self) = Inr vs"
  shows "((\<forall>(k, a) \<in> set vs. \<exists>v. Field_value loads env (s a) = Inr v)
            \<longrightarrow> call_has_key loads env s self name = Inr (name \<in> fst ` set vs))
    \<and> (\<forall>k a e. (k, a) \<in> set vs \<and> Field_value loads env (s a) = Inl e
          \<longrightarrow> (\<exists>e'. call_has_key loads env s self name = Inl e'
                 \<and> (\<exists>(k', b) \<in> set vs. Field_value loads env (s b) = Inl e')))"
proof -
  note sd = call_as_dict_plain [OF assms(1,2,4), of loads env s]
  note ch = call_has_key_plain [OF assms(3), of loads env s name]
  have 1: "(\<forall>(k, a) \<in> set vs. \<exists>v. Field_value loads env (s a) = Inr v)
            \<longrightarrow> call_has_key loads env s self name = Inr (name \<in> fst ` set vs)"
  proof
    assume "\<forall>(k, a) \<in> set vs. \<exists>v. Field_value loads env (s a) = Inr v"
    then obtain d where d: "comprehension loads env s vs [] = Inr d"
      using comprehension_returns [of vs loads env s "[]"] by blast
    from comprehension_keys [OF d] have "fst ` set d = fst ` set vs" by simp
    with d show "call_has_key loads env s self name = Inr (name \<in> fst ` set vs)"
      by (simp add: ch Config_has_key_def sd)
  qed
  have 2: "\<forall>k a e. (k, a) \<in> set vs \<and> Field_value loads env (s a) = Inl e
          \<longrightarrow> (\<exists>e'. call_has_key loads env s self name = Inl e'
                 \<and> (\<exists>(k', b) \<in> set vs. Field_value loads env (s b) = Inl e'))"
  proof (intro allI impI)
    fix k a e
    assume h: "(k, a) \<in> set vs \<and> Field_value loads env (s a) = Inl e"
    then obtain e' where e': "comprehension loads env s vs [] = Inl e'"
      using comprehension_fails [where s = s and acc = "[]" and vs = vs and k = k and a = a
          and loads = loads and env = env and e = e] by blast
    from comprehension_error_source [OF e']
    have "\<exists>(k', b) \<in> set vs. Field_value loads env (s b) = Inl e'" .
    moreover have "call_has_key loads env s self name = Inl e'"
      by (simp add: ch Config_has_key_def sd e')
    ultimately show "\<exists>e'. call_has_key loads env s self name = Inl e'
                 \<and> (\<exists>(k', b) \<in> set vs. Field_value loads env (s b) = Inl e')"
      by blast
  qed
  show ?thesis
    by (intro conjI) (rule 1, rule 2)
qed

theorem has_key_raises_when_a_field_fails_witness:
  "call_has_key no_json Map.empty (fst ParentConfig) (Config_init (snd ParentConfig) None)
     ''bar'' = Inr True
   \<and> call_has_key no_json Map.empty (fst ParentConfig) (Config_init (snd ParentConfig) None)
     ''missing'' = Inr False
   \<and> call_has_key no_json [''FOO'' \<mapsto> ''yes''] (fst ParentConfig)
       (Config_init (snd ParentConfig) None) ''bar''
     = Inl (ValueError ''Bool type must be TRUE or FALSE'')"
proof -
  let ?self = "Config_init (snd ParentConfig) None"
  let ?vs = "[(''foo'', 0), (''bar'', 1), (''baz'', 2), (''some_obj'', 3)] :: vars"
  let ?bad = "[''FOO'' \<mapsto> ''yes'']"
  let ?e = "ValueError ''Bool type must be TRUE or FALSE''"
  have h1: "map_of (inst_dict ?self) ''_vars'' = None"
    and h2: "map_of (inst_dict ?self) ''as_dict'' = None"
    and h3: "map_of (inst_dict ?self) ''has_key'' = None"
    by simp_all
  have h4: "class_vars (cls ?self) = Inr ?vs"
    by (simp add: class_simps)
  note w = has_key_raises_when_a_field_fails [where self = ?self and loads = no_json
      and s = "fst ParentConfig", OF h1 h2 h3 h4]
  have all: "\<forall>(k, a) \<in> set ?vs. \<exists>v. Field_value no_json Map.empty (fst ParentConfig a) = Inr v"
    by (simp add: eval_simps)
  have "call_has_key no_json Map.empty (fst ParentConfig) ?self ''bar''
      = Inr (''bar'' \<in> fst ` set ?vs)"
    by (rule w [where env = Map.empty and name = "''bar''", THEN conjunct1, THEN mp, OF all])
  then have a: "call_has_key no_json Map.empty (fst ParentConfig) ?self ''bar'' = Inr True"
    by simp
  have "call_has_key no_json Map.empty (fst ParentConfig) ?self ''missing''
      = Inr (''missing'' \<in> fst ` set ?vs)"
    by (rule w [where env = Map.empty and name = "''missing''", THEN conjunct1, THEN mp, OF all])
  then have b: "call_has_key no_json Map.empty (fst ParentConfig) ?self ''missing'' = Inr False"
    by simp
  have foo: "(''foo'', 0) \<in> set ?vs \<and> Field_value no_json ?bad (fst ParentConfig 0) = Inl ?e"
    by (simp add: eval_simps)
  have only: "\<forall>(k, b) \<in> set ?vs.
            \<forall>e'. Field_value no_json ?bad (fst ParentConfig b) = Inl e' \<longrightarrow> e' = ?e"
    by (simp add: eval_simps)
  from w [where env = ?bad and name = "''bar''", THEN conjunct2, rule_format, OF foo]
  obtain e' where e': "call_has_key no_json ?bad (fst ParentConfig) ?self ''bar'' = Inl e'"
    and src: "\<exists>(k', b) \<in> set ?vs. Field_value no_json ?bad (fst ParentConfig b) = Inl e'"
    by (elim exE conjE)
  from src only have "e' = ?e" by auto
  with e' have c: "call_has_key no_json ?bad (fst ParentConfig) ?self ''bar'' = Inl ?e"
    by simp
  show ?thesis
    by (intro conjI) (rule a, rule b, rule c)
qed

text \<open>
  C8 as stated fails: with \<open>FOO=yes\<close> for the boolean field \<open>foo\<close>, \<open>has_key\<close> of the
  merged field \<open>bar\<close> raises instead of returning a boolean.
\<close>

theorem has_key_undecodable_counterexample:
  "map_of (merged_fields (snd ParentConfig)) ''bar'' = Some 1
   \<and> call_has_key no_json (map_of [(''FOO'', ''yes'')]) (fst ParentConfig)
       (Config_init (snd ParentConfig) None) ''bar''
     = Inl (ValueError ''Bool type must be TRUE or FALSE'')"
  by (simp add: call_has_key_def Config_has_key_def inst_simps eval_simps)


section \<open>Instances made with a config mapping\<close>

lemma inst_dict_Config_init:
  "map_of (inst_dict (Config_init c (Some config))) =
     map_of (rev (map (\<lambda>(k, v). (k, Field_of v)) config))"
  using map_of_fold_setitem [of Field_of config "[]"]
  by (simp add: Config_init_def)

lemma inst_dict_absent:
  "k \<notin> fst ` set config \<Longrightarrow> map_of (inst_dict (Config_init c (Some config))) k = None"
  by (force simp: inst_dict_Config_init map_of_eq_None_iff)


lemma call_as_dict_unshadowed:
  "map_of (inst_dict self) ''_vars'' = None \<Longrightarrow> map_of (inst_dict self) ''as_dict'' = None
     \<Longrightarrow> call_as_dict loads env s self =
       (case class_vars (cls self) of
          Inl e \<Rightarrow> Inl RecursionError
        | Inr vs \<Rightarrow> comprehension loads env s vs [])"
  by (simp add: call_as_dict_def Config_as_dict_def self_vars_def instance_lookup_plain
      not_descriptors split: sum.splits)

text \<open>
  C10, as the code has it.  When no entry of the \<open>config\<close> mapping is named \<open>_vars\<close>,
  \<open>as_dict\<close>, \<open>get\<close> or \<open>has_key\<close>, the calls of \<open>as_dict\<close>, \<open>get\<close> and \<open>has_key\<close> on
  the instance give exactly what they give on an instance made without \<open>config\<close>, and
  the keys of a dictionary that \<open>as_dict\<close> returns are the names of the merged fields.
\<close>

theorem overrides_leave_as_dict_get_has_key:
  assumes "''_vars'' \<notin> fst ` set config" and "''as_dict'' \<notin> fst ` set config"
    and "''get'' \<notin> fst ` set config" and "''has_key'' \<notin> fst ` set config"
  shows "call_as_dict loads env s (Config_init c (Some config))
           = call_as_dict loads env s (Config_init c None)
    \<and> call_get loads env s (Config_init c (Some config)) name dflt
           = call_get loads env s (Config_init c None) name dflt
    \<and> call_has_key loads env s (Config_init c (Some config)) name
           = call_has_key loads env s (Config_init c None) name
    \<and> (\<forall>d. call_as_dict loads env s (Config_init c (Some config)) = Inr d
           \<longrightarrow> fst ` set d = fst ` set (merged_fields c))"
proof -
  let ?o = "Config_init c (Some config)" and ?p = "Config_init c None"
  from assms have v: "map_of (inst_dict ?o) ''_vars'' = None"
    and a: "map_of (inst_dict ?o) ''as_dict'' = None"
    and g: "map_of (inst_dict ?o) ''get'' = None"
    and h: "map_of (inst_dict ?o) ''has_key'' = None"
    by (simp_all add: inst_dict_absent)
  have v': "map_of (inst_dict ?p) ''_vars'' = None"
    and a': "map_of (inst_dict ?p) ''as_dict'' = None"
    and g': "map_of (inst_dict ?p) ''get'' = None"
    and h': "map_of (inst_dict ?p) ''has_key'' = None"
    by simp_all
  have 1: "call_as_dict loads env s ?o = call_as_dict loads env s ?p"
    by (simp add: call_as_dict_unshadowed v a v' a')
  have 2: "call_get loads env s ?o name dflt = call_get loads env s ?p name dflt"
    by (simp add: call_get_plain g g' Config_get_def 1)
  have 3: "call_has_key loads env s ?o name = call_has_key loads env s ?p name"
    by (simp add: call_has_key_plain h h' Config_has_key_def 1)
  have 4: "\<forall>d. call_as_dict loads env s ?o = Inr d \<longrightarrow> fst ` set d = fst ` set (merged_fields c)"
  proof (intro allI impI)
    fix d
    assume d: "call_as_dict loads env s ?o = Inr d"
    show "fst ` set d = fst ` set (merged_fields c)"
    proof (cases "class_vars c")
      case (Inl e)
      with d show ?thesis
        by (simp add: call_as_dict_unshadowed v a)
    next
      case (Inr vs)
      with d have "comprehension loads env s vs [] = Inr d"
        by (simp add: call_as_dict_unshadowed v a)
      from comprehension_keys [OF this] Inr show ?thesis
        by (simp add: merged_fields_def)
    qed
  qed
  show ?thesis
    by (intro conjI) (rule 1, rule 2, rule 3, rule 4)
qed

theorem overrides_leave_as_dict_get_has_key_witness:
  "call_as_dict no_json Map.empty (fst ParentConfig)
     (Config_init (snd ParentConfig) (Some [(''bar'', PStr ''other''), (''extra'', PInt 1)]))
   = Inr [(''foo'', PBool True), (''bar'', PStr ''bar''), (''baz'', PInt 25),
          (''some_obj'', some_obj_default)]"
proof -
  let ?config = "[(''bar'', PStr ''other''), (''extra'', PInt 1)]"
  have h1: "''_vars'' \<notin> fst ` set ?config" and h2: "''as_dict'' \<notin> fst ` set ?config"
    and h3: "''get'' \<notin> fst ` set ?config" and h4: "''has_key'' \<notin> fst ` set ?config"
    by simp_all
  note w = overrides_leave_as_dict_get_has_key [where config = ?config and loads = no_json
      and env = Map.empty and s = "fst ParentConfig" and c = "snd ParentConfig",
      OF h1 h2 h3 h4]
  have "call_as_dict no_json Map.empty (fst ParentConfig) (Config_init (snd ParentConfig) None)
      = Inr [(''foo'', PBool True), (''bar'', PStr ''bar''), (''baz'', PInt 25),
          (''some_obj'', some_obj_default)]"
    by (simp add: inst_simps eval_simps)
  with w [THEN conjunct1] show ?thesis
    by (simp only:)
qed

text \<open>
  C10 as stated fails: an entry named \<open>_vars\<close> is stored in the instance's
  \<open>__dict__\<close>, where \<open>self._vars\<close> finds it before the dictionary of the class, and
  \<open>as_dict\<close> raises where it returns the defaults without the entry.
\<close>

theorem override_named_vars_counterexample:
  "call_as_dict no_json (map_of []) (fst ParentConfig)
     (Config_init (snd ParentConfig) (Some [(''_vars'', PInt 1)]))
     = Inl (AttributeError ''Field object has no attribute items'')
   \<and> call_as_dict no_json (map_of []) (fst ParentConfig)
     (Config_init (snd ParentConfig) None)
     = Inr [(''foo'', PBool True), (''bar'', PStr ''bar''), (''baz'', PInt 25),
            (''some_obj'', some_obj_default)]"
  by (simp add: inst_simps eval_simps)





end
